theory Spec2Isabelle
  imports Complex_Main "HOL-Library.Word" "HOL-Library.Multiset"
begin

section \<open>Flash Master: review scheduling and answer grading\<close>

text \<open>
  Shallow embedding of the grading and scheduling core of Flash Master:
  \<^item> \<^verbatim>\<open>src/utils/srs.ts\<close>: \<^verbatim>\<open>updateFamiliarity\<close> and \<^verbatim>\<open>SimpleSRSAlgorithm\<close>;
  \<^item> \<^verbatim>\<open>src/utils/moedict.ts\<close>: \<^verbatim>\<open>MoedictAPI\<close> (lookup, validation, similarity);
  \<^item> \<^verbatim>\<open>checkAnswer\<close> of \<^verbatim>\<open>StudyView.tsx\<close> and of \<^verbatim>\<open>ReviewView.tsx\<close>;
  \<^item> \<^verbatim>\<open>getDueLearningRecords\<close> of the database context.

  A JavaScript string is a sequence of UTF-16 code units; a JavaScript number is modelled
  by an integer where the code only counts or indexes and by a rational where it divides.
\<close>

type_synonym jsstring = "16 word list"

subsection \<open>Familiarity tiers (\<^verbatim>\<open>FamiliarityLevel\<close>)\<close>

datatype FamiliarityLevel = Unfamiliar | Unanswered | SomewhatFamiliar | Familiar | Mastered

text \<open>
  \<^verbatim>\<open>updateFamiliarity(currentFamiliarity, isCorrect, timeSpent)\<close>: two switches, one per
  value of \<^verbatim>\<open>isCorrect\<close>; each covers the five tiers, so the trailing
  \<^verbatim>\<open>return currentFamiliarity\<close> is never reached.
\<close>

fun updateFamiliarity :: "FamiliarityLevel \<Rightarrow> bool \<Rightarrow> rat \<Rightarrow> FamiliarityLevel" where
  "updateFamiliarity Unfamiliar True timeSpent = SomewhatFamiliar"
| "updateFamiliarity Unanswered True timeSpent = SomewhatFamiliar"
| "updateFamiliarity SomewhatFamiliar True timeSpent =
     (if timeSpent < 10 then Familiar else SomewhatFamiliar)"
| "updateFamiliarity Familiar True timeSpent =
     (if timeSpent < 5 then Mastered else Familiar)"
| "updateFamiliarity Mastered True timeSpent = Mastered"
| "updateFamiliarity Unfamiliar False timeSpent = Unfamiliar"
| "updateFamiliarity Unanswered False timeSpent = Unfamiliar"
| "updateFamiliarity SomewhatFamiliar False timeSpent = Unfamiliar"
| "updateFamiliarity Familiar False timeSpent = SomewhatFamiliar"
| "updateFamiliarity Mastered False timeSpent = Familiar"

text \<open>
  The five-tier order is the order in which the type \<^verbatim>\<open>FamiliarityLevel\<close> lists its
  values (and in which the familiarity dialog offers them): unfamiliar, unanswered,
  somewhat-familiar, familiar, mastered. The last tier has no successor.
\<close>

fun tier_successor :: "FamiliarityLevel \<Rightarrow> FamiliarityLevel option" where
  "tier_successor Unfamiliar = Some Unanswered"
| "tier_successor Unanswered = Some SomewhatFamiliar"
| "tier_successor SomewhatFamiliar = Some Familiar"
| "tier_successor Familiar = Some Mastered"
| "tier_successor Mastered = None"

definition stays_or_advances :: "FamiliarityLevel \<Rightarrow> FamiliarityLevel \<Rightarrow> bool" where
  "stays_or_advances tier tier' = (tier' = tier \<or> tier_successor tier = Some tier')"

subsection \<open>Strings\<close>

text \<open>
  \<^verbatim>\<open>String.prototype.trim\<close> removes the code units of the ECMAScript classes WhiteSpace
  and LineTerminator from both ends.
\<close>

definition is_white_space :: "16 word \<Rightarrow> bool" where
  "is_white_space c =
     (c \<in> {0x0009, 0x000A, 0x000B, 0x000C, 0x000D, 0x0020, 0x00A0, 0x1680,
            0x2028, 0x2029, 0x202F, 0x205F, 0x3000, 0xFEFF}
      \<or> (0x2000 \<le> c \<and> c \<le> 0x200A))"

definition trim :: "jsstring \<Rightarrow> jsstring" where
  "trim s = rev (dropWhile is_white_space (rev (dropWhile is_white_space s)))"

text \<open>
  \<^verbatim>\<open>String.prototype.toLowerCase\<close> follows the Unicode case tables, which are not part of
  the repository: the evaluators take it as the parameter \<open>toLowerCase\<close>. On strings of
  ASCII code units it is the function below, which the closed examples use.
\<close>

definition toLowerCase_ascii :: "jsstring \<Rightarrow> jsstring" where
  "toLowerCase_ascii s = map (\<lambda>c. if 0x41 \<le> c \<and> c \<le> 0x5A then c + 0x20 else c) s"

subsection \<open>Questions and answers (\<^verbatim>\<open>types\<close>)\<close>

record QuestionOption =
  option_id :: jsstring
  option_text :: jsstring
  isCorrect :: bool

record SortItem =
  item_id :: jsstring
  item_text :: jsstring
  correctOrder :: int

text \<open>
  The union \<^verbatim>\<open>Question\<close>, one constructor per value of the tag \<^verbatim>\<open>type\<close>. The fields of
  \<^verbatim>\<open>BaseQuestion\<close> (id, subject, text, explanation, difficulty, dates) are left out: no
  evaluator reads or writes them.
\<close>

datatype Question =
    MultipleChoice "QuestionOption list" bool  \<comment> \<open>\<^verbatim>\<open>options\<close>, \<^verbatim>\<open>allowMultiple\<close>\<close>
  | TrueFalse bool  \<comment> \<open>\<^verbatim>\<open>correctAnswer\<close>\<close>
  | FillBlank "jsstring list" bool  \<comment> \<open>\<^verbatim>\<open>correctAnswers\<close>, \<^verbatim>\<open>caseSensitive\<close>\<close>
  | Sort "SortItem list"  \<comment> \<open>\<^verbatim>\<open>items\<close>\<close>
  | BopomofoToChar jsstring jsstring  \<comment> \<open>\<^verbatim>\<open>bopomofo\<close>, \<^verbatim>\<open>correctChar\<close>\<close>
  | CharToBopomofo jsstring jsstring  \<comment> \<open>\<^verbatim>\<open>character\<close>, \<^verbatim>\<open>correctBopomofo\<close>\<close>

text \<open>The state \<^verbatim>\<open>userAnswer: string | string[] | boolean | number[] | null\<close>; \<open>None\<close> is null.\<close>

datatype UserAnswer =
    AString jsstring
  | AStrings "jsstring list"
  | ABool bool
  | ANumbers "int list"

text \<open>
  The casts \<^verbatim>\<open>userAnswer as T\<close> are unchecked. Calling a method that the value does not
  have (\<^verbatim>\<open>trim\<close> on an array or a boolean, \<^verbatim>\<open>every\<close> on a string) throws a TypeError;
  reading \<^verbatim>\<open>length\<close> of a boolean gives undefined, and \<^verbatim>\<open>===\<close> between a string and a
  number is false.
\<close>

datatype js_error = TypeError

subsection \<open>The answer evaluator \<^verbatim>\<open>checkAnswer\<close>\<close>

text \<open>
  \<^verbatim>\<open>Array.prototype.sort\<close> with the comparator \<^verbatim>\<open>(a, b) => key(a) - key(b)\<close> on integer keys:
  ascending and stable (ECMAScript 2019), and it sorts the array in place.
\<close>

definition js_sort_by :: "('a \<Rightarrow> int) \<Rightarrow> 'a list \<Rightarrow> 'a list" where
  "js_sort_by key xs = sort_key key xs"

text \<open>\<^verbatim>\<open>xs.map((_, index) => index)\<close>: the positions of an array.\<close>

definition map_index :: "'a list \<Rightarrow> int list" where
  "map_index xs = map (\<lambda>(_, index). int index) (zip xs [0..<length xs])"

text \<open>
  Multiple choice with \<^verbatim>\<open>allowMultiple\<close>:
  \<^verbatim>\<open>selectedOptions.length === correctOptions.length &&
    selectedOptions.every(id => correctOptions.includes(id))\<close>.
\<close>

fun checkMultiple :: "UserAnswer \<Rightarrow> jsstring list \<Rightarrow> js_error + bool" where
  "checkMultiple (AStrings selectedOptions) correctOptions =
     Inr (length selectedOptions = length correctOptions \<and>
          list_all (\<lambda>i. i \<in> set correctOptions) selectedOptions)"
| "checkMultiple (ANumbers selectedOptions) correctOptions =
     Inr (length selectedOptions = length correctOptions \<and>
          list_all (\<lambda>i. False) selectedOptions)"
| "checkMultiple (AString s) correctOptions =
     (if length s = length correctOptions then Inl TypeError else Inr False)"
| "checkMultiple (ABool b) correctOptions = Inr False"

text \<open>
  Single choice: \<^verbatim>\<open>correctOption ? selectedOption === correctOption.id : false\<close>, where
  \<^verbatim>\<open>correctOption\<close> is the first option flagged correct.
\<close>

fun checkSingle :: "UserAnswer \<Rightarrow> QuestionOption option \<Rightarrow> js_error + bool" where
  "checkSingle a None = Inr False"
| "checkSingle (AString selectedOption) (Some correctOption) =
     Inr (selectedOption = option_id correctOption)"
| "checkSingle a (Some correctOption) = Inr False"

definition checkMultipleChoice ::
  "QuestionOption list \<Rightarrow> bool \<Rightarrow> UserAnswer \<Rightarrow> js_error + bool" where
  "checkMultipleChoice opts multiple a =
     (if multiple then checkMultiple a (map option_id (filter isCorrect opts))
      else checkSingle a (find isCorrect opts))"

text \<open>True/false: \<^verbatim>\<open>userAnswer === currentQuestion.correctAnswer\<close>.\<close>

fun checkTrueFalse :: "bool \<Rightarrow> UserAnswer \<Rightarrow> js_error + bool" where
  "checkTrueFalse correct (ABool b) = Inr (b = correct)"
| "checkTrueFalse correct a = Inr False"

text \<open>Fill in the blank: the trimmed answer equals some entry of \<^verbatim>\<open>correctAnswers\<close>.\<close>

fun checkFillBlank ::
  "(jsstring \<Rightarrow> jsstring) \<Rightarrow> jsstring list \<Rightarrow> bool \<Rightarrow> UserAnswer \<Rightarrow> js_error + bool" where
  "checkFillBlank toLowerCase corrects sensitive (AString s) =
     (let answer = trim s
      in Inr (list_ex (\<lambda>correct. if sensitive then correct = answer
                                  else toLowerCase correct = toLowerCase answer) corrects))"
| "checkFillBlank toLowerCase corrects sensitive a = Inl TypeError"

text \<open>The two phonetic types: \<^verbatim>\<open>(userAnswer as string).trim() === target\<close>.\<close>

fun checkTrimmed :: "jsstring \<Rightarrow> UserAnswer \<Rightarrow> js_error + bool" where
  "checkTrimmed target (AString s) = Inr (trim s = target)"
| "checkTrimmed target a = Inl TypeError"

text \<open>
  Sort, in \<^verbatim>\<open>StudyView\<close>: \<^verbatim>\<open>correctOrder\<close> is the array of positions of the sorted items, and
  \<^verbatim>\<open>userOrder.length === correctOrder.length &&
    userOrder.every((order, index) => order === correctOrder[index])\<close>.
\<close>

fun checkOrder :: "UserAnswer \<Rightarrow> int list \<Rightarrow> js_error + bool" where
  "checkOrder (ANumbers userOrder) positions =
     Inr (length userOrder = length positions \<and>
          list_all (\<lambda>(order, index). order = positions ! index)
                   (zip userOrder [0..<length userOrder]))"
| "checkOrder (AStrings userOrder) positions =
     Inr (length userOrder = length positions \<and> list_all (\<lambda>order. False) userOrder)"
| "checkOrder (AString s) positions =
     (if length s = length positions then Inl TypeError else Inr False)"
| "checkOrder (ABool b) positions = Inr False"

text \<open>
  \<^verbatim>\<open>checkAnswer\<close> of \<^verbatim>\<open>StudyView\<close>. It reads the component state \<^verbatim>\<open>currentQuestion\<close> and
  \<^verbatim>\<open>userAnswer\<close>; the sort branch calls \<^verbatim>\<open>currentQuestion.items.sort\<close>, which reorders the
  array of the question itself, so the model returns the verdict together with the question
  as the call leaves it. The argument \<open>lc\<close> is \<^verbatim>\<open>toLowerCase\<close>.
\<close>

fun checkAnswer_question ::
  "(jsstring \<Rightarrow> jsstring) \<Rightarrow> Question \<Rightarrow> UserAnswer \<Rightarrow> (js_error + bool) \<times> Question" where
  "checkAnswer_question lc (MultipleChoice opts multiple) a =
     (checkMultipleChoice opts multiple a, MultipleChoice opts multiple)"
| "checkAnswer_question lc (TrueFalse correct) a =
     (checkTrueFalse correct a, TrueFalse correct)"
| "checkAnswer_question lc (FillBlank corrects sensitive) a =
     (checkFillBlank lc corrects sensitive a, FillBlank corrects sensitive)"
| "checkAnswer_question lc (Sort its) a =
     (let sortedItems = js_sort_by correctOrder its
      in (checkOrder a (map_index sortedItems), Sort sortedItems))"
| "checkAnswer_question lc (BopomofoToChar b c) a =
     (checkTrimmed c a, BopomofoToChar b c)"
| "checkAnswer_question lc (CharToBopomofo c b) a =
     (checkTrimmed b a, CharToBopomofo c b)"

fun checkAnswer ::
  "(jsstring \<Rightarrow> jsstring) \<Rightarrow> Question option \<Rightarrow> UserAnswer option
     \<Rightarrow> (js_error + bool) \<times> Question option" where
  "checkAnswer lc (Some q) (Some a) =
     (case checkAnswer_question lc q a of (r, q') \<Rightarrow> (r, Some q'))"
| "checkAnswer lc q a = (Inr False, q)"

text \<open>
  \<^verbatim>\<open>checkAnswer\<close> of \<^verbatim>\<open>ReviewView\<close>: the same switch, except that the sort branch is
  \<^verbatim>\<open>return false\<close>. Nothing is written, so the verdict is the whole result.
\<close>

fun review_checkAnswer ::
  "(jsstring \<Rightarrow> jsstring) \<Rightarrow> Question option \<Rightarrow> UserAnswer option \<Rightarrow> js_error + bool" where
  "review_checkAnswer lc (Some (MultipleChoice opts multiple)) (Some a) =
     checkMultipleChoice opts multiple a"
| "review_checkAnswer lc (Some (TrueFalse correct)) (Some a) = checkTrueFalse correct a"
| "review_checkAnswer lc (Some (FillBlank corrects sensitive)) (Some a) =
     checkFillBlank lc corrects sensitive a"
| "review_checkAnswer lc (Some (Sort its)) (Some a) = Inr False"
| "review_checkAnswer lc (Some (BopomofoToChar b c)) (Some a) = checkTrimmed c a"
| "review_checkAnswer lc (Some (CharToBopomofo c b)) (Some a) = checkTrimmed b a"
| "review_checkAnswer lc q a = Inr False"

subsection \<open>The due queue (\<^verbatim>\<open>getDueLearningRecords\<close>)\<close>

text \<open>
  A \<^verbatim>\<open>LearningRecord\<close>, with the fields the scheduling core reads. \<^verbatim>\<open>nextReview\<close> is an ISO
  string in the source, read only through \<^verbatim>\<open>new Date(r.nextReview)\<close>: the model keeps the
  time value of that date in milliseconds, and \<open>None\<close> for a string that does not parse
  (an invalid date, whose time value is NaN).
\<close>

record LearningRecord =
  record_id :: jsstring
  questionId :: jsstring
  familiarity :: FamiliarityLevel
  correctCount :: int
  incorrectCount :: int
  streak :: int
  nextReview :: "int option"

text \<open>\<^verbatim>\<open>new Date(r.nextReview) <= now\<close>: a comparison with NaN is false.\<close>

definition isDue :: "int \<Rightarrow> LearningRecord \<Rightarrow> bool" where
  "isDue now r = (case nextReview r of None \<Rightarrow> False | Some t \<Rightarrow> t \<le> now)"

text \<open>
  \<^verbatim>\<open>new Date(r.nextReview).getTime()\<close>, the sort key. It is only taken of records that
  passed the filter, whose date is valid.
\<close>

definition getTime :: "LearningRecord \<Rightarrow> int" where
  "getTime r = (case nextReview r of None \<Rightarrow> 0 | Some t \<Rightarrow> t)"

text \<open>
  \<^verbatim>\<open>learningRecords.filter(...).sort(...)\<close>, with the clock reading \<^verbatim>\<open>new Date()\<close> as the
  argument \<open>now\<close>. The sort works on the array that \<^verbatim>\<open>filter\<close> has just built.
\<close>

definition getDueLearningRecords :: "int \<Rightarrow> LearningRecord list \<Rightarrow> LearningRecord list" where
  "getDueLearningRecords now learningRecords =
     js_sort_by getTime (filter (isDue now) learningRecords)"

subsection \<open>The Simple scheduling algorithm (\<^verbatim>\<open>SimpleSRSAlgorithm\<close>)\<close>

text \<open>
  The interval in days that \<^verbatim>\<open>calculateNextReview\<close> builds before it calls \<^verbatim>\<open>addDays\<close>.
  The source computes in IEEE doubles; the model computes in exact rationals.
\<close>

definition baseIntervalDays :: "FamiliarityLevel \<Rightarrow> rat" where
  "baseIntervalDays currentFamiliarity =
     (case currentFamiliarity of
        Unfamiliar \<Rightarrow> 1 / 10
      | Unanswered \<Rightarrow> 1 / 2
      | SomewhatFamiliar \<Rightarrow> 1
      | Familiar \<Rightarrow> 3
      | Mastered \<Rightarrow> 7)"

definition simpleIntervalDays :: "FamiliarityLevel \<Rightarrow> int \<Rightarrow> int \<Rightarrow> int \<Rightarrow> rat" where
  "simpleIntervalDays currentFamiliarity correct incorrect strk =
     (let intervalDays = baseIntervalDays currentFamiliarity;
          totalAttempts = correct + incorrect;
          intervalDays =
            (if totalAttempts > 0 then
               (let accuracy = (of_int correct :: rat) / of_int totalAttempts
                in if accuracy \<ge> 9 / 10 then intervalDays * (3 / 2)
                   else if accuracy < 6 / 10 then intervalDays * (1 / 2)
                   else intervalDays)
             else intervalDays);
          intervalDays =
            (if strk > 0 then intervalDays * min (1 + of_int strk * (2 / 10)) 3
             else intervalDays)
      in intervalDays)"

text \<open>
  \<^verbatim>\<open>calculateNextReview\<close> returns \<^verbatim>\<open>addDays(now, intervalDays)\<close>, where \<^verbatim>\<open>addDays\<close> is imported
  from the library date-fns and \<^verbatim>\<open>now\<close> is the clock reading. Dates are time values in
  milliseconds. The argument \<^verbatim>\<open>_lastReviewed\<close> is not used.
\<close>

definition calculateNextReview ::
  "(int \<Rightarrow> rat \<Rightarrow> int) \<Rightarrow> int \<Rightarrow> FamiliarityLevel \<Rightarrow> int \<Rightarrow> int \<Rightarrow> int \<Rightarrow> int \<Rightarrow> int" where
  "calculateNextReview addDays now currentFamiliarity correct incorrect strk lastReviewed =
     addDays now (simpleIntervalDays currentFamiliarity correct incorrect strk)"

text \<open>
  \<^verbatim>\<open>addDays\<close> of date-fns moves the day of the month by a whole number of days: it passes
  the amount to \<^verbatim>\<open>Date.prototype.setDate\<close>, which keeps the integer part only (the
  library's documentation: positive decimals are rounded with \<^verbatim>\<open>Math.floor\<close>, negative
  ones with \<^verbatim>\<open>Math.ceil\<close>). A day is 86400000 ms where the local clock does not shift.
\<close>

definition msPerDay :: int where
  "msPerDay = 86400000"

definition date_fns_addDays :: "int \<Rightarrow> rat \<Rightarrow> int" where
  "date_fns_addDays date amount =
     date + msPerDay * (if amount < 0 then \<lceil>amount\<rceil> else \<lfloor>amount\<rfloor>)"

subsection \<open>JSON values\<close>

text \<open>
  \<^verbatim>\<open>getCharacterInfo\<close> returns what \<^verbatim>\<open>response.json()\<close> parsed, cast to \<^verbatim>\<open>MoedictResponse\<close>
  without a check, so the validator may meet any JSON value. The keys of an object are
  distinct, as the parser leaves them.
\<close>

datatype json =
    JNull
  | JBool bool
  | JNumber rat
  | JString jsstring
  | JArray "json list"
  | JObject "(jsstring \<times> json) list"

text \<open>The conversion to a boolean that \<^verbatim>\<open>!v\<close> and \<^verbatim>\<open>Boolean(v)\<close> apply.\<close>

fun truthy :: "json \<Rightarrow> bool" where
  "truthy JNull = False"
| "truthy (JBool b) = b"
| "truthy (JNumber n) = (n \<noteq> 0)"
| "truthy (JString s) = (s \<noteq> [])"
| "truthy (JArray xs) = True"
| "truthy (JObject kvs) = True"

text \<open>
  Reading \<^verbatim>\<open>v.h\<close> or \<^verbatim>\<open>v.b\<close> of a value other than \<^verbatim>\<open>null\<close>: the entry of an object,
  \<^verbatim>\<open>undefined\<close> (\<open>None\<close>) where the object has no such key and for every other value.
\<close>

fun getProperty :: "jsstring \<Rightarrow> json \<Rightarrow> json option" where
  "getProperty key (JObject kvs) = map_of kvs key"
| "getProperty key v = None"

text \<open>Reading \<^verbatim>\<open>v.length\<close>: strings and arrays have one; an object may have the key.\<close>

fun lengthOf :: "json \<Rightarrow> json option" where
  "lengthOf (JString s) = Some (JNumber (of_nat (length s)))"
| "lengthOf (JArray xs) = Some (JNumber (of_nat (length xs)))"
| "lengthOf (JObject kvs) = map_of kvs [0x6C, 0x65, 0x6E, 0x67, 0x74, 0x68]"
| "lengthOf v = None"

abbreviation key_h :: jsstring where
  "key_h \<equiv> [0x68]"

abbreviation key_b :: jsstring where
  "key_b \<equiv> [0x62]"

subsection \<open>The phonetic lookup (\<^verbatim>\<open>MoedictAPI\<close>)\<close>

text \<open>
  What the network does with the request for one character: \<^verbatim>\<open>fetch\<close> rejects, or it
  resolves to a response with its \<^verbatim>\<open>ok\<close> flag, its status and a body, where \<^verbatim>\<open>response.json()\<close>
  rejects on a body that is not JSON (\<open>None\<close>) and otherwise gives the parsed value.
\<close>

datatype fetch_outcome =
    FetchRejected
  | Response bool nat "json option"

datatype lookup_error = NetworkError | HttpError nat | SyntaxError

text \<open>The body of the \<^verbatim>\<open>try\<close> block of \<^verbatim>\<open>getCharacterInfo\<close>, up to the data it returns.\<close>

fun fetchCharacterInfo :: "fetch_outcome \<Rightarrow> lookup_error + json" where
  "fetchCharacterInfo FetchRejected = Inl NetworkError"
| "fetchCharacterInfo (Response ok status body) =
     (if \<not> ok then Inl (HttpError status)
      else case body of None \<Rightarrow> Inl SyntaxError | Some data \<Rightarrow> Inr data)"

text \<open>
  \<^verbatim>\<open>getCharacterInfo\<close>: the cache first; otherwise the request, whose result is stored in the
  cache; the \<^verbatim>\<open>catch\<close> block turns every error into \<^verbatim>\<open>null\<close>. The function \<open>fetch\<close> gives
  the outcome of the request for each character; the cache is passed in and returned.
\<close>

definition getCharacterInfo ::
  "(jsstring \<Rightarrow> fetch_outcome) \<Rightarrow> (jsstring \<rightharpoonup> json) \<Rightarrow> jsstring
     \<Rightarrow> json \<times> (jsstring \<rightharpoonup> json)" where
  "getCharacterInfo fetch cache character =
     (case cache character of
        Some data \<Rightarrow> (data, cache)
      | None \<Rightarrow>
          (case fetchCharacterInfo (fetch character) of
             Inl error \<Rightarrow> (JNull, cache)
           | Inr data \<Rightarrow> (data, cache(character \<mapsto> data))))"

text \<open>\<^verbatim>\<open>normalizeBopomofo\<close>: remove the four tone marks U+02CA, U+02C7, U+02CB, U+02D9.\<close>

definition isToneMark :: "16 word \<Rightarrow> bool" where
  "isToneMark c = (c = 0x02CA \<or> c = 0x02C7 \<or> c = 0x02CB \<or> c = 0x02D9)"

definition normalizeBopomofo :: "jsstring \<Rightarrow> jsstring" where
  "normalizeBopomofo bopomofo = filter (\<lambda>c. \<not> isToneMark c) bopomofo"

text \<open>
  \<^verbatim>\<open>levenshteinDistance\<close>: a matrix of \<open>str2.length + 1\<close> rows and \<open>str1.length + 1\<close> columns,
  filled with \<^verbatim>\<open>null\<close> (here 0, the number \<^verbatim>\<open>null\<close> converts to), then the first row, the
  first column, and the remaining cells row by row.
\<close>

definition matrix_set :: "nat list list \<Rightarrow> nat \<Rightarrow> nat \<Rightarrow> nat \<Rightarrow> nat list list" where
  "matrix_set matrix j i v = matrix[j := (matrix ! j)[i := v]]"

definition levenshteinCell ::
  "jsstring \<Rightarrow> jsstring \<Rightarrow> nat \<Rightarrow> nat \<Rightarrow> nat list list \<Rightarrow> nat list list" where
  "levenshteinCell str1 str2 j i matrix =
     (let indicator = (if str1 ! (i - 1) = str2 ! (j - 1) then 0 else 1)
      in matrix_set matrix j i
           (min (matrix ! j ! (i - 1) + 1)
                (min (matrix ! (j - 1) ! i + 1)
                     (matrix ! (j - 1) ! (i - 1) + indicator))))"

definition levenshteinDistance :: "jsstring \<Rightarrow> jsstring \<Rightarrow> nat" where
  "levenshteinDistance str1 str2 =
     (let matrix = replicate (length str2 + 1) (replicate (length str1 + 1) 0);
          matrix = fold (\<lambda>i m. matrix_set m 0 i i) [0..<length str1 + 1] matrix;
          matrix = fold (\<lambda>j m. matrix_set m j 0 j) [0..<length str2 + 1] matrix;
          matrix = fold (\<lambda>j m. fold (levenshteinCell str1 str2 j) [1..<length str1 + 1] m)
                     [1..<length str2 + 1] matrix
      in matrix ! length str2 ! length str1)"

text \<open>\<^verbatim>\<open>calculateSimilarity\<close>, in exact rationals.\<close>

definition calculateSimilarity :: "jsstring \<Rightarrow> jsstring \<Rightarrow> rat" where
  "calculateSimilarity bopomofo1 bopomofo2 =
     (let normalized1 = normalizeBopomofo bopomofo1;
          normalized2 = normalizeBopomofo bopomofo2
      in if normalized1 = normalized2 then 1
         else
           (let distance = levenshteinDistance normalized1 normalized2;
                maxLength = max (length normalized1) (length normalized2)
            in if maxLength = 0 then 0 else 1 - of_nat distance / of_nat maxLength))"

text \<open>
  \<^verbatim>\<open>Array.prototype.indexOf\<close> gives the first position of a value, or \<open>-1\<close>; indexing an
  array outside its range gives \<^verbatim>\<open>undefined\<close> (\<open>None\<close>).
\<close>

fun indexOf :: "'a list \<Rightarrow> 'a \<Rightarrow> int" where
  "indexOf [] y = - 1"
| "indexOf (x # xs) y =
     (if x = y then 0 else (let k = indexOf xs y in if k < 0 then - 1 else k + 1))"

definition js_nth :: "'a list \<Rightarrow> int \<Rightarrow> 'a option" where
  "js_nth xs k = (if 0 \<le> k \<and> k < int (length xs) then Some (xs ! nat k) else None)"

text \<open>
  \<^verbatim>\<open>characterInfo.h.map(heteronym => heteronym.b)\<close> on the elements of an array: reading
  \<^verbatim>\<open>b\<close> of \<^verbatim>\<open>null\<close> throws a TypeError, every other element has the property or gives
  \<^verbatim>\<open>undefined\<close>.
\<close>

fun readB :: "json \<Rightarrow> js_error + json option" where
  "readB JNull = Inl TypeError"
| "readB heteronym = Inr (getProperty key_b heteronym)"

fun mapB :: "json list \<Rightarrow> js_error + json option list" where
  "mapB [] = Inr []"
| "mapB (heteronym # heteronyms) =
     (case readB heteronym of
        Inl e \<Rightarrow> Inl e
      | Inr b \<Rightarrow> (case mapB heteronyms of Inl e \<Rightarrow> Inl e | Inr bs \<Rightarrow> Inr (b # bs)))"

text \<open>\<^verbatim>\<open>.filter(Boolean)\<close>: keep the values that convert to true.\<close>

fun filterBoolean :: "json option list \<Rightarrow> json list" where
  "filterBoolean [] = []"
| "filterBoolean (None # bs) = filterBoolean bs"
| "filterBoolean (Some b # bs) = (if truthy b then b # filterBoolean bs else filterBoolean bs)"

text \<open>
  \<^verbatim>\<open>possibleBopomofo.map(b => this.normalizeBopomofo(b))\<close> calls \<^verbatim>\<open>b.replace\<close>, which only a
  string has: the candidates as strings, or \<open>None\<close> when one of them is not a string and
  the call throws a TypeError.
\<close>

fun stringsOf :: "json list \<Rightarrow> jsstring list option" where
  "stringsOf [] = Some []"
| "stringsOf (JString s # vs) = (case stringsOf vs of None \<Rightarrow> None | Some ss \<Rightarrow> Some (s # ss))"
| "stringsOf (v # vs) = None"

text \<open>The result of \<^verbatim>\<open>validateBopomofo\<close>; an absent \<^verbatim>\<open>correctBopomofo\<close> is \<open>None\<close>.\<close>

record Validation =
  is_correct :: bool
  correct_bopomofo :: "jsstring option"
  confidence :: rat

definition rejected :: Validation where
  "rejected = \<lparr>is_correct = False, correct_bopomofo = None, confidence = 0\<rparr>"

text \<open>
  \<^verbatim>\<open>validateBopomofo\<close> after the exact match has failed, on candidates that are strings: the
  match without tone marks, then the best similarity. \<^verbatim>\<open>Math.max(...similarities)\<close> is taken
  of a list that is not empty; the caller never passes the empty list.
\<close>

fun matchReadings :: "jsstring list \<Rightarrow> jsstring \<Rightarrow> Validation" where
  "matchReadings [] inputBopomofo = rejected"
| "matchReadings (b # bs) inputBopomofo =
     (let possibleBopomofo = b # bs;
          normalizedInput = normalizeBopomofo inputBopomofo;
          normalizedPossible = map normalizeBopomofo possibleBopomofo
      in if normalizedInput \<in> set normalizedPossible then
           (let correctIndex = indexOf normalizedPossible normalizedInput
            in \<lparr>is_correct = True,
                correct_bopomofo = js_nth possibleBopomofo correctIndex,
                confidence = 8 / 10\<rparr>)
         else
           (let similarities = map (calculateSimilarity inputBopomofo) possibleBopomofo;
                maxSimilarity = fold max (tl similarities) (hd similarities);
                bestMatchIndex = indexOf similarities maxSimilarity
            in \<lparr>is_correct = (maxSimilarity > 7 / 10),
                correct_bopomofo = js_nth possibleBopomofo bestMatchIndex,
                confidence = maxSimilarity\<rparr>))"

text \<open>
  \<^verbatim>\<open>validateBopomofo\<close> from the candidate list \<^verbatim>\<open>possibleBopomofo\<close> on: no candidate, exact
  match (\<^verbatim>\<open>includes\<close> finds the input only among the strings), then the two stages above,
  which throw when a candidate is not a string.
\<close>

definition matchBopomofo :: "json list \<Rightarrow> jsstring \<Rightarrow> js_error + Validation" where
  "matchBopomofo possibleBopomofo inputBopomofo =
     (if length possibleBopomofo = 0 then Inr rejected
      else if JString inputBopomofo \<in> set possibleBopomofo then
        Inr \<lparr>is_correct = True, correct_bopomofo = Some inputBopomofo, confidence = 1\<rparr>
      else
        (case stringsOf possibleBopomofo of
           None \<Rightarrow> Inl TypeError
         | Some readings \<Rightarrow> Inr (matchReadings readings inputBopomofo)))"

text \<open>
  \<^verbatim>\<open>validateBopomofo\<close>: the lookup, the guards
  \<^verbatim>\<open>!characterInfo || !characterInfo.h || characterInfo.h.length === 0\<close>, the candidate list,
  then the match. Only an array has \<^verbatim>\<open>map\<close>: for any other \<^verbatim>\<open>h\<close> that passed the guards the
  call throws a TypeError. No \<^verbatim>\<open>try\<close> encloses these steps, so the TypeError leaves the
  function (\<open>Inl\<close>). The result comes with the cache as the lookup leaves it.
\<close>

definition validateBopomofo ::
  "(jsstring \<Rightarrow> fetch_outcome) \<Rightarrow> (jsstring \<rightharpoonup> json) \<Rightarrow> jsstring \<Rightarrow> jsstring
     \<Rightarrow> (js_error + Validation) \<times> (jsstring \<rightharpoonup> json)" where
  "validateBopomofo fetch cache character inputBopomofo =
     (case getCharacterInfo fetch cache character of
        (characterInfo, cache') \<Rightarrow>
          (if \<not> truthy characterInfo then Inr rejected
           else
             (case getProperty key_h characterInfo of
                None \<Rightarrow> Inr rejected
              | Some h \<Rightarrow>
                  if \<not> truthy h \<or> lengthOf h = Some (JNumber 0) then Inr rejected
                  else
                    (case h of
                       JArray heteronyms \<Rightarrow>
                         (case mapB heteronyms of
                            Inl e \<Rightarrow> Inl e
                          | Inr bs \<Rightarrow> matchBopomofo (filterBoolean bs) inputBopomofo)
                     | _ \<Rightarrow> Inl TypeError)),
           cache'))"

text \<open>
  The candidate readings that a lookup result yields: none when the lookup gave \<^verbatim>\<open>null\<close> or
  the entry has no heteronyms; a TypeError where building the list throws.
\<close>

definition candidateReadings :: "json \<Rightarrow> js_error + json list" where
  "candidateReadings characterInfo =
     (if \<not> truthy characterInfo then Inr []
      else
        (case getProperty key_h characterInfo of
           None \<Rightarrow> Inr []
         | Some h \<Rightarrow>
             if \<not> truthy h \<or> lengthOf h = Some (JNumber 0) then Inr []
             else
               (case h of
                  JArray heteronyms \<Rightarrow>
                    (case mapB heteronyms of Inl e \<Rightarrow> Inl e | Inr bs \<Rightarrow> Inr (filterBoolean bs))
                | _ \<Rightarrow> Inl TypeError)))"

text \<open>The lookup fails when the \<^verbatim>\<open>try\<close> block throws.\<close>

definition lookupFails :: "fetch_outcome \<Rightarrow> bool" where
  "lookupFails outcome =
     (case fetchCharacterInfo outcome of Inl e \<Rightarrow> True | Inr data \<Rightarrow> False)"

subsection \<open>The recurrence behind the distance matrix\<close>

text \<open>
  The value that cell \<open>(j, i)\<close> of the matrix is to hold: the edit distance between the
  first \<open>i\<close> code units of \<open>s1\<close> and the first \<open>j\<close> code units of \<open>s2\<close>.
\<close>

fun ed :: "'a list \<Rightarrow> 'a list \<Rightarrow> nat \<Rightarrow> nat \<Rightarrow> nat" where
  "ed s1 s2 i 0 = i"
| "ed s1 s2 0 j = j"
| "ed s1 s2 (Suc i) (Suc j) =
     min (ed s1 s2 i (Suc j) + 1)
         (min (ed s1 s2 (Suc i) j + 1)
              (ed s1 s2 i j + (if s1 ! i = s2 ! j then 0 else 1)))"

text \<open>A matrix of \<open>H + 1\<close> rows with \<open>W + 1\<close> columns each.\<close>

definition shaped :: "nat \<Rightarrow> nat \<Rightarrow> nat list list \<Rightarrow> bool" where
  "shaped H W m \<longleftrightarrow> length m = Suc H \<and> (\<forall>j\<le>H. length (m ! j) = Suc W)"

text \<open>
  The state of the matrix when the loops reach cell \<open>(j0, i0)\<close>: the first column is set, and
  every cell of the rows above \<open>j0\<close> and every cell of row \<open>j0\<close> left of \<open>i0\<close> holds its value.
\<close>

definition filled :: "'a list \<Rightarrow> 'a list \<Rightarrow> nat \<Rightarrow> nat \<Rightarrow> nat list list \<Rightarrow> bool" where
  "filled s1 s2 j0 i0 m \<longleftrightarrow>
     shaped (length s2) (length s1) m \<and>
     (\<forall>j\<le>length s2. m ! j ! 0 = j) \<and>
     (\<forall>j<j0. \<forall>i\<le>length s1. j \<le> length s2 \<longrightarrow> m ! j ! i = ed s1 s2 i j) \<and>
     (\<forall>i<i0. i \<le> length s1 \<longrightarrow> j0 \<le> length s2 \<longrightarrow> m ! j0 ! i = ed s1 s2 i j0)"

subsection \<open>An entry for the examples\<close>

text \<open>
  An entry (keys \<^verbatim>\<open>t\<close> and \<^verbatim>\<open>h\<close>) with two heteronyms, whose readings \<^verbatim>\<open>b\<close> are
  U+3113 U+3128 U+3125 without and with the mark U+02CB.
\<close>

definition zhong :: json where
  "zhong = JObject [([0x74], JString [0x4E2D]),
                    (key_h, JArray [JObject [(key_b, JString [0x3113, 0x3128, 0x3125])],
                                    JObject [(key_b, JString [0x3113, 0x3128, 0x3125, 0x02CB])]])]"

subsection \<open>The index sequence of a sort question, as the specification words it\<close>

text \<open>
  Following the specification: the canonical order is the items sorted ascending by
  \<^verbatim>\<open>correctOrder\<close>, and the sequence to compare the answer with is the 0-based indices of
  the items in that order.
\<close>

definition spec_sortedIndexSequence :: "SortItem list \<Rightarrow> int list" where
  "spec_sortedIndexSequence its =
     map (\<lambda>(item, index). int index)
       (js_sort_by (\<lambda>(item, index). correctOrder item) (zip its [0..<length its]))"

section \<open>Properties\<close>

subsection \<open>Familiarity transitions\<close>

text \<open>
  C8, as the specification states it: for every tier and every \<open>timeSpent \<ge> 10\<close>, a correct
  answer leaves the tier or moves it to its immediate successor in the five-tier order.
  This fails at the tier unfamiliar: a correct answer moves it to somewhat-familiar, past
  unanswered.
\<close>

theorem updateFamiliarity_skips_unanswered:
  "\<not> stays_or_advances Unfamiliar (updateFamiliarity Unfamiliar True 10)"
  by (simp add: stays_or_advances_def)

text \<open>
  C8, amended: for every tier other than unfamiliar and every \<open>timeSpent \<ge> 10\<close>, a correct
  answer leaves the tier or moves it to its immediate successor; from unfamiliar it moves to
  somewhat-familiar.
\<close>

theorem updateFamiliarity_slow_correct:
  assumes "10 \<le> timeSpent"
  shows "(tier \<noteq> Unfamiliar \<longrightarrow>
            stays_or_advances tier (updateFamiliarity tier True timeSpent)) \<and>
         updateFamiliarity Unfamiliar True timeSpent = SomewhatFamiliar"
  using assms by (cases tier) (simp_all add: stays_or_advances_def)

theorem updateFamiliarity_slow_correct_witness:
  "(10::rat) \<le> 12 \<and> Unanswered \<noteq> Unfamiliar \<and>
   stays_or_advances Unanswered (updateFamiliarity Unanswered True 12) \<and>
   updateFamiliarity Unfamiliar True 12 = SomewhatFamiliar"
  using updateFamiliarity_slow_correct [of 12 Unanswered] by simp

subsection \<open>The answer evaluator\<close>

lemma map_index_eq: "map_index xs = map int [0..<length xs]"
  unfolding map_index_def by (rule nth_equalityI) simp_all

lemma length_js_sort_by: "length (js_sort_by key xs) = length xs"
  by (simp add: js_sort_by_def)

lemma every_index_iff:
  "list_all (\<lambda>(order, index). order = positions ! index) (zip userOrder [0..<length userOrder])
     \<longleftrightarrow> (\<forall>i<length userOrder. userOrder ! i = positions ! i)"
  by (simp add: list_all_length)

lemma checkOrder_numbers:
  "checkOrder (ANumbers userOrder) positions = Inr (userOrder = positions)"
  unfolding checkOrder.simps every_index_iff sum.inject list_eq_iff_nth_eq ..

text \<open>
  In \<^verbatim>\<open>StudyView\<close> the verdict on a sort question does not depend on \<^verbatim>\<open>correctOrder\<close>: the
  sorted items are replaced by their positions, so the answer is compared with
  \<open>0, 1, \<dots>, n - 1\<close>.
\<close>

lemma checkAnswer_sort_positions:
  "fst (checkAnswer lc (Some (Sort its)) (Some (ANumbers userOrder))) =
     Inr (userOrder = map int [0..<length its])"
  by (simp add: Let_def checkOrder_numbers map_index_eq length_js_sort_by
           del: checkOrder.simps)

text \<open>For items stored in ascending order the two sequences are the same.\<close>

lemma spec_sortedIndexSequence_sorted:
  assumes "sorted (map correctOrder its)"
  shows "spec_sortedIndexSequence its = map int [0..<length its]"
proof -
  have "map (\<lambda>(item, index). correctOrder item) (zip its [0..<length its]) = map correctOrder its"
    by (rule nth_equalityI) simp_all
  with assms have "js_sort_by (\<lambda>(item, index). correctOrder item) (zip its [0..<length its])
      = zip its [0..<length its]"
    by (simp add: js_sort_by_def sort_key_id_if_sorted)
  moreover have "map (\<lambda>(item, index). int index) (zip its [0..<length its]) = map int [0..<length its]"
    by (rule nth_equalityI) simp_all
  ultimately show ?thesis by (simp add: spec_sortedIndexSequence_def)
qed

text \<open>
  C1 fails on the code. For the items \<open>b\<close> (\<^verbatim>\<open>correctOrder\<close> 5) and \<open>a\<close> (\<^verbatim>\<open>correctOrder\<close> 2),
  sorting gives \<open>a, b\<close>, the index sequence \<open>[1, 0]\<close>. The study-mode evaluator rejects
  the answer \<open>[1, 0]\<close> and accepts \<open>[0, 1]\<close>; the review-mode evaluator rejects \<open>[1, 0]\<close>
  as it rejects every answer.
\<close>

theorem checkAnswer_sort_ignores_correctOrder:
  "spec_sortedIndexSequence
     [\<lparr>item_id = [0x62], item_text = [0x42], correctOrder = 5\<rparr>,
      \<lparr>item_id = [0x61], item_text = [0x41], correctOrder = 2\<rparr>] = [1, 0] \<and>
   fst (checkAnswer lc
         (Some (Sort [\<lparr>item_id = [0x62], item_text = [0x42], correctOrder = 5\<rparr>,
                      \<lparr>item_id = [0x61], item_text = [0x41], correctOrder = 2\<rparr>]))
         (Some (ANumbers [1, 0]))) = Inr False \<and>
   fst (checkAnswer lc
         (Some (Sort [\<lparr>item_id = [0x62], item_text = [0x42], correctOrder = 5\<rparr>,
                      \<lparr>item_id = [0x61], item_text = [0x41], correctOrder = 2\<rparr>]))
         (Some (ANumbers [0, 1]))) = Inr True \<and>
   review_checkAnswer lc
         (Some (Sort [\<lparr>item_id = [0x62], item_text = [0x42], correctOrder = 5\<rparr>,
                      \<lparr>item_id = [0x61], item_text = [0x41], correctOrder = 2\<rparr>]))
         (Some (ANumbers [1, 0])) = Inr False"
  by (simp add: spec_sortedIndexSequence_def js_sort_by_def checkAnswer_sort_positions
           del: checkAnswer.simps)

text \<open>
  C3: in review mode no submission to a sort question is judged correct, whatever the items,
  their \<^verbatim>\<open>correctOrder\<close> values and the answer (a missing answer included).
\<close>

theorem review_checkAnswer_sort_false:
  "review_checkAnswer lc (Some (Sort its)) a = Inr False"
  by (cases a) simp_all

theorem review_checkAnswer_sort_false_witness:
  "review_checkAnswer toLowerCase_ascii
     (Some (Sort [\<lparr>item_id = [0x61], item_text = [0x41], correctOrder = 0\<rparr>,
                  \<lparr>item_id = [0x62], item_text = [0x42], correctOrder = 1\<rparr>]))
     (Some (ANumbers [0, 1])) = Inr False"
  by (rule review_checkAnswer_sort_false)

text \<open>
  Multi-select compares the two lengths and tests containment one way. For lists without
  repeated ids that is equality of the two sets.
\<close>

lemma checkMultiple_distinct:
  assumes "distinct selectedOptions" and "distinct correctOptions"
  shows "checkMultiple (AStrings selectedOptions) correctOptions =
           Inr (set selectedOptions = set correctOptions)"
proof -
  have "set selectedOptions = set correctOptions"
    if len: "length selectedOptions = length correctOptions"
      and sub: "set selectedOptions \<subseteq> set correctOptions"
  proof (rule card_subset_eq [OF _ sub])
    show "finite (set correctOptions)" by simp
    show "card (set selectedOptions) = card (set correctOptions)"
      using assms len by (simp add: distinct_card)
  qed
  moreover have "length selectedOptions = length correctOptions"
    if "set selectedOptions = set correctOptions"
    using assms that by (metis distinct_card)
  ultimately show ?thesis
    by (auto simp: list_all_iff)
qed

text \<open>
  C2 fails on the code where ids repeat. The question form creates every option with the
  id \<^verbatim>\<open>''\<close>, so two correct options share an id \<open>i\<close>: the only non-empty selection the
  controls can build is \<open>[i]\<close>, its set is the set of correct ids, and both evaluators
  reject it because the lengths differ. In the other direction the submission \<open>[a, a]\<close> is
  accepted against the correct ids \<open>a\<close> and \<open>b\<close>.
\<close>

theorem checkAnswer_multiple_counts_repeats:
  "fst (checkAnswer lc
         (Some (MultipleChoice [\<lparr>option_id = i, option_text = s, isCorrect = True\<rparr>,
                                \<lparr>option_id = i, option_text = t, isCorrect = True\<rparr>] True))
         (Some (AStrings [i]))) = Inr False \<and>
   review_checkAnswer lc
         (Some (MultipleChoice [\<lparr>option_id = i, option_text = s, isCorrect = True\<rparr>,
                                \<lparr>option_id = i, option_text = t, isCorrect = True\<rparr>] True))
         (Some (AStrings [i])) = Inr False \<and>
   set [i] = set (map option_id (filter isCorrect
                   [\<lparr>option_id = i, option_text = s, isCorrect = True\<rparr>,
                    \<lparr>option_id = i, option_text = t, isCorrect = True\<rparr>])) \<and>
   fst (checkAnswer lc
         (Some (MultipleChoice [\<lparr>option_id = [0x61], option_text = s, isCorrect = True\<rparr>,
                                \<lparr>option_id = [0x62], option_text = t, isCorrect = True\<rparr>] True))
         (Some (AStrings [[0x61], [0x61]]))) = Inr True \<and>
   set [[0x61], [0x61]] \<noteq> set [[0x61], [0x62 :: 16 word]]"
  by (simp add: checkMultipleChoice_def)

text \<open>
  Apart from the sort branch the evaluator writes nothing; the sort branch leaves the items
  as they were exactly when they were already in ascending order.
\<close>

lemma js_sort_by_fixed_iff: "js_sort_by key xs = xs \<longleftrightarrow> sorted (map key xs)"
  unfolding js_sort_by_def
  by (metis sorted_sort_key sort_key_id_if_sorted)

lemma checkAnswer_question_frame:
  "snd (checkAnswer_question lc q a) = q \<longleftrightarrow>
     (case q of Sort its \<Rightarrow> sorted (map correctOrder its) | _ \<Rightarrow> True)"
  by (cases q) (simp_all add: Let_def js_sort_by_fixed_iff)

text \<open>
  C7 fails on the code for sort questions: the study-mode evaluator sorts the items of the
  question in place. After the evaluation below the two items have changed places.
\<close>

theorem checkAnswer_sort_reorders_items:
  "snd (checkAnswer toLowerCase_ascii
         (Some (Sort [\<lparr>item_id = [0x62], item_text = [0x42], correctOrder = 1\<rparr>,
                      \<lparr>item_id = [0x61], item_text = [0x41], correctOrder = 0\<rparr>]))
         (Some (ANumbers [0, 1]))) =
     Some (Sort [\<lparr>item_id = [0x61], item_text = [0x41], correctOrder = 0\<rparr>,
                 \<lparr>item_id = [0x62], item_text = [0x42], correctOrder = 1\<rparr>]) \<and>
   snd (checkAnswer toLowerCase_ascii
         (Some (Sort [\<lparr>item_id = [0x62], item_text = [0x42], correctOrder = 1\<rparr>,
                      \<lparr>item_id = [0x61], item_text = [0x41], correctOrder = 0\<rparr>]))
         (Some (ANumbers [0, 1]))) \<noteq>
     Some (Sort [\<lparr>item_id = [0x62], item_text = [0x42], correctOrder = 1\<rparr>,
                 \<lparr>item_id = [0x61], item_text = [0x41], correctOrder = 0\<rparr>])"
  by (simp add: js_sort_by_def Let_def map_index_def)

subsection \<open>The due queue\<close>

lemma isDue_iff: "isDue now r = (\<exists>t. nextReview r = Some t \<and> t \<le> now)"
  by (simp add: isDue_def split: option.split)

text \<open>
  C10: the due-queue selector returns exactly the records whose \<^verbatim>\<open>nextReview\<close> is at most
  \<open>now\<close> (each as often as it occurs in the collection), in ascending order of
  \<^verbatim>\<open>nextReview\<close>, and records with the same \<^verbatim>\<open>nextReview\<close> keep their relative order.
\<close>

theorem getDueLearningRecords_spec:
  "mset (getDueLearningRecords now rs) = filter_mset (isDue now) (mset rs) \<and>
   sorted (map getTime (getDueLearningRecords now rs)) \<and>
   (\<forall>k. filter (\<lambda>r. getTime r = k) (getDueLearningRecords now rs) =
        filter (\<lambda>r. getTime r = k) (filter (isDue now) rs)) \<and>
   isDue now r = (\<exists>t. nextReview r = Some t \<and> t \<le> now)"
  unfolding getDueLearningRecords_def js_sort_by_def
  using isDue_iff [of now r] by (simp add: sort_key_stable)

theorem getDueLearningRecords_spec_witness:
  "getDueLearningRecords 100
     [\<lparr>record_id = [0x63], questionId = [0x33], familiarity = Familiar, correctCount = 2,
        incorrectCount = 0, streak = 2, nextReview = Some 101\<rparr>,
      \<lparr>record_id = [0x62], questionId = [0x32], familiarity = Unfamiliar, correctCount = 0,
        incorrectCount = 1, streak = 0, nextReview = Some 100\<rparr>,
      \<lparr>record_id = [0x61], questionId = [0x31], familiarity = Mastered, correctCount = 9,
        incorrectCount = 1, streak = 3, nextReview = Some 99\<rparr>] =
     [\<lparr>record_id = [0x61], questionId = [0x31], familiarity = Mastered, correctCount = 9,
        incorrectCount = 1, streak = 3, nextReview = Some 99\<rparr>,
      \<lparr>record_id = [0x62], questionId = [0x32], familiarity = Unfamiliar, correctCount = 0,
        incorrectCount = 1, streak = 0, nextReview = Some 100\<rparr>] \<and>
   sorted (map getTime (getDueLearningRecords 100
     [\<lparr>record_id = [0x63], questionId = [0x33], familiarity = Familiar, correctCount = 2,
        incorrectCount = 0, streak = 2, nextReview = Some 101\<rparr>,
      \<lparr>record_id = [0x62], questionId = [0x32], familiarity = Unfamiliar, correctCount = 0,
        incorrectCount = 1, streak = 0, nextReview = Some 100\<rparr>,
      \<lparr>record_id = [0x61], questionId = [0x31], familiarity = Mastered, correctCount = 9,
        incorrectCount = 1, streak = 3, nextReview = Some 99\<rparr>]))"
  using getDueLearningRecords_spec [of 100
     "[\<lparr>record_id = [0x63], questionId = [0x33], familiarity = Familiar, correctCount = 2,
        incorrectCount = 0, streak = 2, nextReview = Some 101\<rparr>,
      \<lparr>record_id = [0x62], questionId = [0x32], familiarity = Unfamiliar, correctCount = 0,
        incorrectCount = 1, streak = 0, nextReview = Some 100\<rparr>,
      \<lparr>record_id = [0x61], questionId = [0x31], familiarity = Mastered, correctCount = 9,
        incorrectCount = 1, streak = 3, nextReview = Some 99\<rparr>]"]
  by (simp add: getDueLearningRecords_def js_sort_by_def isDue_def getTime_def)

subsection \<open>The Simple scheduling algorithm\<close>

text \<open>
  The comments of the source give the two shortest intervals as 2.4 hours (0.1 day) and
  12 hours (0.5 day). With \<^verbatim>\<open>addDays\<close> of date-fns an interval below one day adds nothing.
\<close>

lemma floor_tenth: "\<lfloor>1 / 10 :: rat\<rfloor> = 0"
  by (rule floor_unique) simp_all

lemma floor_interval: "\<lfloor>84 / 5 :: rat\<rfloor> = 16"
  by (rule floor_unique) simp_all

lemma calculateNextReview_unfamiliar_now:
  "calculateNextReview date_fns_addDays now Unfamiliar 0 0 0 lastReviewed = now"
  by (simp add: calculateNextReview_def simpleIntervalDays_def baseIntervalDays_def
      date_fns_addDays_def floor_tenth)

text \<open>
  C4 fails on the code: for mastered, 9 correct, 1 incorrect, streak 3 the interval is
  16.8 days, as the claim computes it, but the date returned is \<open>T\<close> plus 16 days: the
  0.8 day (69120000 ms) is dropped by \<^verbatim>\<open>addDays\<close>.
\<close>

theorem calculateNextReview_drops_fraction:
  "simpleIntervalDays Mastered 9 1 3 = 84 / 5 \<and>
   calculateNextReview date_fns_addDays T Mastered 9 1 3 lastReviewed = T + 16 * msPerDay \<and>
   calculateNextReview date_fns_addDays T Mastered 9 1 3 lastReviewed
     \<noteq> T + 16 * msPerDay + 69120000"
  by (simp add: calculateNextReview_def simpleIntervalDays_def baseIntervalDays_def
      date_fns_addDays_def msPerDay_def floor_interval)

subsection \<open>The distance matrix computes the recurrence\<close>

lemma ed_0_left [simp]: "ed s1 s2 0 j = j"
  by (cases j) simp_all

lemma ed_sym: "ed s1 s2 i j = ed s2 s1 j i"
proof (induction s1 s2 i j rule: ed.induct)
  case (3 s1 s2 i j)
  then show ?case by (simp add: min.commute min.left_commute eq_commute)
qed simp_all

lemma length_matrix_set_row: "length (matrix_set m j i v ! j') = length (m ! j')"
  unfolding matrix_set_def
  by (cases "j = j'"; cases "j < length m") (simp_all add: list_update_beyond)

lemma shaped_set: "shaped H W m \<Longrightarrow> shaped H W (matrix_set m j i v)"
  unfolding shaped_def length_matrix_set_row by (simp add: matrix_set_def)

lemma nth_matrix_set:
  "shaped H W m \<Longrightarrow> j \<le> H \<Longrightarrow> i \<le> W \<Longrightarrow>
   matrix_set m j i v ! j' ! i' = (if j' = j \<and> i' = i then v else m ! j' ! i')"
  unfolding shaped_def matrix_set_def
  by (cases "j = j'"; cases "i = i'") simp_all

lemma filled_cell:
  assumes f: "filled str1 str2 j i m" and j: "1 \<le> j" "j \<le> length str2"
    and i: "1 \<le> i" "i \<le> length str1"
  shows "filled str1 str2 j (Suc i) (levenshteinCell str1 str2 j i m)"
proof -
  obtain i' j' where ij: "i = Suc i'" "j = Suc j'"
    using i j by (metis One_nat_def Suc_le_D)
  have sh: "shaped (length str2) (length str1) m" using f by (simp add: filled_def)
  have left: "m ! j ! i' = ed str1 str2 i' j"
    using f i j ij by (simp add: filled_def)
  have up: "m ! j' ! i = ed str1 str2 i j'"
    using f i j ij by (simp add: filled_def)
  have diag: "m ! j' ! i' = ed str1 str2 i' j'"
    using f i j ij by (simp add: filled_def)
  have val: "min (m ! j ! (i - 1) + 1)
               (min (m ! (j - 1) ! i + 1)
                 (m ! (j - 1) ! (i - 1) + (if str1 ! (i - 1) = str2 ! (j - 1) then 0 else 1)))
             = ed str1 str2 i j"
    using left up diag by (simp add: ij)
  have cell: "levenshteinCell str1 str2 j i m = matrix_set m j i (ed str1 str2 i j)"
    unfolding levenshteinCell_def Let_def val ..
  show ?thesis
    unfolding cell filled_def
    using f sh i j
    by (auto simp: filled_def shaped_set nth_matrix_set less_Suc_eq)
qed


lemma filled_row:
  assumes "filled str1 str2 j 1 m" and "1 \<le> j" and "j \<le> length str2" and "k \<le> length str1"
  shows "filled str1 str2 j (Suc k) (fold (levenshteinCell str1 str2 j) [1..<Suc k] m)"
  using assms(4)
proof (induction k)
  case 0
  then show ?case using assms(1) by simp
next
  case (Suc k)
  then have "filled str1 str2 j (Suc k) (fold (levenshteinCell str1 str2 j) [1..<Suc k] m)"
    by simp
  then have "filled str1 str2 j (Suc (Suc k))
      (levenshteinCell str1 str2 j (Suc k) (fold (levenshteinCell str1 str2 j) [1..<Suc k] m))"
    using assms(2,3) Suc.prems by (intro filled_cell) simp_all
  then show ?case by simp
qed

lemma filled_next_row:
  assumes "filled str1 str2 j (Suc (length str1)) m" and "j \<le> length str2"
  shows "filled str1 str2 (Suc j) 1 m"
proof -
  have row: "m ! j ! i = ed str1 str2 i j" if "i \<le> length str1" for i
    using assms that by (simp add: filled_def less_Suc_eq_le)
  have above: "m ! j' ! i = ed str1 str2 i j'" if "j' < j" "i \<le> length str1" for j' i
    using assms that by (simp add: filled_def)
  have rows: "m ! j' ! i = ed str1 str2 i j'" if "j' < Suc j" "i \<le> length str1" for j' i
    using that row above by (cases "j' = j") simp_all
  have column: "m ! j' ! 0 = j'" if "j' \<le> length str2" for j'
    using assms(1) that by (simp add: filled_def)
  show ?thesis
    unfolding filled_def using assms(1) rows column by (simp add: filled_def)
qed

lemma filled_rows:
  assumes "filled str1 str2 1 1 m" and "k \<le> length str2"
  shows "filled str1 str2 (Suc k) 1
           (fold (\<lambda>j m. fold (levenshteinCell str1 str2 j) [1..<length str1 + 1] m)
                 [1..<Suc k] m)"
  using assms(2)
proof (induction k)
  case 0
  then show ?case using assms(1) by simp
next
  case (Suc k)
  let ?m = "fold (\<lambda>j m. fold (levenshteinCell str1 str2 j) [1..<length str1 + 1] m)
                 [1..<Suc k] m"
  have "filled str1 str2 (Suc k) 1 ?m" using Suc by simp
  then have "filled str1 str2 (Suc k) (Suc (length str1))
               (fold (levenshteinCell str1 str2 (Suc k)) [1..<Suc (length str1)] ?m)"
    using Suc.prems by (intro filled_row) simp_all
  then have "filled str1 str2 (Suc (Suc k)) 1
               (fold (levenshteinCell str1 str2 (Suc k)) [1..<Suc (length str1)] ?m)"
    using Suc.prems by (intro filled_next_row) simp_all
  then show ?case by simp
qed

lemma init_first_row:
  assumes "shaped H W m" and "k \<le> Suc W"
  shows "shaped H W (fold (\<lambda>i m. matrix_set m 0 i i) [0..<k] m) \<and>
         (\<forall>i<k. fold (\<lambda>i m. matrix_set m 0 i i) [0..<k] m ! 0 ! i = i)"
  using assms(2)
proof (induction k)
  case 0
  then show ?case using assms(1) by simp
next
  case (Suc k)
  then show ?case
    by (auto simp: shaped_set nth_matrix_set less_Suc_eq)
qed

lemma init_first_column:
  assumes "shaped H W m" and "k \<le> Suc H"
  shows "shaped H W (fold (\<lambda>j m. matrix_set m j 0 j) [0..<k] m) \<and>
         (\<forall>j<k. fold (\<lambda>j m. matrix_set m j 0 j) [0..<k] m ! j ! 0 = j) \<and>
         (\<forall>j i. 0 < i \<longrightarrow> fold (\<lambda>j m. matrix_set m j 0 j) [0..<k] m ! j ! i = m ! j ! i)"
  using assms(2)
proof (induction k)
  case 0
  then show ?case using assms(1) by simp
next
  case (Suc k)
  then show ?case
    by (auto simp: shaped_set nth_matrix_set less_Suc_eq)
qed

lemma shaped_replicate: "shaped H W (replicate (Suc H) (replicate (Suc W) 0))"
  by (simp add: shaped_def less_Suc_eq_le [symmetric] del: replicate.simps)

lemma filled_init:
  fixes str1 str2 :: "'a list"
  defines "m0 \<equiv> replicate (Suc (length str2)) (replicate (Suc (length str1)) (0::nat))"
  defines "m1 \<equiv> fold (\<lambda>i m. matrix_set m 0 i i) [0..<Suc (length str1)] m0"
  defines "m2 \<equiv> fold (\<lambda>j m. matrix_set m j 0 j) [0..<Suc (length str2)] m1"
  shows "filled str1 str2 1 1 m2"
proof -
  have 1: "shaped (length str2) (length str1) m1" "\<forall>i<Suc (length str1). m1 ! 0 ! i = i"
    using init_first_row [OF shaped_replicate, of "Suc (length str1)" "length str1" "length str2"]
    by (simp_all add: m1_def m0_def)
  have 2: "shaped (length str2) (length str1) m2" "\<forall>j<Suc (length str2). m2 ! j ! 0 = j"
    "\<forall>j i. 0 < i \<longrightarrow> m2 ! j ! i = m1 ! j ! i"
    using init_first_column [OF 1(1), of "Suc (length str2)"]
    by (simp_all add: m2_def)
  have row0: "m2 ! 0 ! i = i" if "i \<le> length str1" for i
    using 1(2) 2(2,3) that by (cases "i = 0") simp_all
  show ?thesis
    unfolding filled_def using 2(1,2) row0 by (auto simp: less_Suc_eq_le)
qed

lemma levenshteinDistance_ed:
  "levenshteinDistance str1 str2 = ed str1 str2 (length str1) (length str2)"
proof -
  let ?m2 = "fold (\<lambda>j m. matrix_set m j 0 j) [0..<Suc (length str2)]
              (fold (\<lambda>i m. matrix_set m 0 i i) [0..<Suc (length str1)]
                (replicate (Suc (length str2)) (replicate (Suc (length str1)) 0)))"
  have "filled str1 str2 (Suc (length str2)) 1
          (fold (\<lambda>j m. fold (levenshteinCell str1 str2 j) [1..<length str1 + 1] m)
                 [1..<Suc (length str2)] ?m2)"
    by (intro filled_rows filled_init) simp
  then show ?thesis
    by (simp add: levenshteinDistance_def filled_def)
qed

lemma levenshteinDistance_sym: "levenshteinDistance a b = levenshteinDistance b a"
  by (simp add: levenshteinDistance_ed ed_sym [of a b])

subsection \<open>Similarity\<close>

lemma calculateSimilarity_same: "calculateSimilarity a a = 1"
  by (simp add: calculateSimilarity_def)

lemma calculateSimilarity_sym: "calculateSimilarity a b = calculateSimilarity b a"
proof (cases "normalizeBopomofo a = normalizeBopomofo b")
  case True
  then show ?thesis by (simp add: calculateSimilarity_def)
next
  case False
  then have "normalizeBopomofo b \<noteq> normalizeBopomofo a" by (rule not_sym)
  with False show ?thesis
    unfolding calculateSimilarity_def Let_def
    by (simp add: levenshteinDistance_sym [of "normalizeBopomofo a" "normalizeBopomofo b"]
        max.commute [of "length (normalizeBopomofo a)"])
qed

subsection \<open>The validator\<close>

lemma indexOf_find: "js_nth xs (indexOf (map f xs) y) = find (\<lambda>x. f x = y) xs"
proof (induction xs)
  case Nil
  show ?case by (simp add: js_nth_def)
next
  case (Cons x xs)
  show ?case
  proof (cases "f x = y")
    case True
    then show ?thesis by (simp add: js_nth_def)
  next
    case False
    show ?thesis
    proof (cases "indexOf (map f xs) y < 0")
      case True
      with Cons False show ?thesis by (simp add: js_nth_def split: if_splits)
    next
      case False
      with Cons \<open>f x \<noteq> y\<close> show ?thesis
        by (simp add: js_nth_def Let_def nat_add_distrib split: if_splits)
    qed
  qed
qed

lemma fold_max_Max: "fold max (tl (map f (b # bs))) (hd (map f (b # bs))) = Max (f ` set (b # bs))"
  using Max.set_eq_fold [of "f b" "map f bs"] by simp

lemma validateBopomofo_match:
  "fst (validateBopomofo fetch cache character inputBopomofo) =
     (case candidateReadings (fst (getCharacterInfo fetch cache character)) of
        Inl e \<Rightarrow> Inl e
      | Inr possibleBopomofo \<Rightarrow> matchBopomofo possibleBopomofo inputBopomofo)"
  by (simp add: validateBopomofo_def candidateReadings_def matchBopomofo_def
      split: prod.split option.split json.split sum.split)

lemma stringsOf_map_JString: "stringsOf (map JString cands) = Some cands"
  by (induction cands) simp_all

lemma matchBopomofo_exact:
  "inputBopomofo \<in> set cands \<Longrightarrow>
   matchBopomofo (map JString cands) inputBopomofo =
     Inr \<lparr>is_correct = True, correct_bopomofo = Some inputBopomofo, confidence = 1\<rparr>"
  by (auto simp: matchBopomofo_def)

lemma matchBopomofo_strings:
  "cands \<noteq> [] \<Longrightarrow> inputBopomofo \<notin> set cands \<Longrightarrow>
   matchBopomofo (map JString cands) inputBopomofo = Inr (matchReadings cands inputBopomofo)"
  by (auto simp: matchBopomofo_def stringsOf_map_JString)

lemma matchReadings_toneless:
  assumes "normalizeBopomofo inputBopomofo \<in> normalizeBopomofo ` set cands"
  shows "matchReadings cands inputBopomofo =
     \<lparr>is_correct = True,
      correct_bopomofo =
        find (\<lambda>c. normalizeBopomofo c = normalizeBopomofo inputBopomofo) cands,
      confidence = 4 / 5\<rparr>"
proof (cases cands)
  case Nil
  with assms show ?thesis by simp
next
  case (Cons b bs)
  have "js_nth (b # bs) (indexOf (map normalizeBopomofo (b # bs)) (normalizeBopomofo inputBopomofo))
        = find (\<lambda>c. normalizeBopomofo c = normalizeBopomofo inputBopomofo) (b # bs)"
    by (rule indexOf_find)
  with assms Cons show ?thesis
    by (simp add: Let_def del: indexOf.simps find.simps)
qed

lemma matchReadings_similar:
  assumes "cands \<noteq> []"
    and "normalizeBopomofo inputBopomofo \<notin> normalizeBopomofo ` set cands"
  shows "matchReadings cands inputBopomofo =
     \<lparr>is_correct = (Max (calculateSimilarity inputBopomofo ` set cands) > 7 / 10),
      correct_bopomofo =
        find (\<lambda>c. calculateSimilarity inputBopomofo c =
                  Max (calculateSimilarity inputBopomofo ` set cands)) cands,
      confidence = Max (calculateSimilarity inputBopomofo ` set cands)\<rparr>"
proof (cases cands)
  case Nil
  with assms show ?thesis by simp
next
  case (Cons b bs)
  let ?sim = "calculateSimilarity inputBopomofo"
  have m: "fold max (tl (map ?sim (b # bs))) (hd (map ?sim (b # bs))) = Max (?sim ` set (b # bs))"
    by (rule fold_max_Max)
  have i: "js_nth (b # bs) (indexOf (map ?sim (b # bs)) (Max (?sim ` set (b # bs))))
        = find (\<lambda>c. ?sim c = Max (?sim ` set (b # bs))) (b # bs)"
    by (rule indexOf_find)
  have no: "normalizeBopomofo inputBopomofo \<notin> set (map normalizeBopomofo (b # bs))"
    using assms Cons by simp
  show ?thesis
    unfolding Cons matchReadings.simps Let_def if_not_P [OF no] m i
    by (rule refl)
qed

lemma zhong_candidates:
  "candidateReadings
     (fst (getCharacterInfo (\<lambda>c. Response True 200 (Some zhong)) Map.empty [0x4E2D]))
     = Inr (map JString [[0x3113, 0x3128, 0x3125], [0x3113, 0x3128, 0x3125, 0x02CB]])"
  by (simp add: candidateReadings_def getCharacterInfo_def zhong_def)

text \<open>
  C5: when the lookup yields a non-empty list of candidate readings, the verdict follows the
  three stages. An input equal to a candidate: correct, the input itself, confidence 1.
  Otherwise an input equal to a candidate once the tone marks are removed: correct, the first
  such candidate, confidence 0.8. Otherwise: the confidence is the greatest similarity over
  the candidates, the verdict is correct exactly when it exceeds 0.7, and the reading is
  the first candidate that attains it.
\<close>

theorem validateBopomofo_cascade:
  assumes "candidateReadings (fst (getCharacterInfo fetch cache character)) =
             Inr (map JString cands)"
    and "cands \<noteq> []"
  shows
    "(inputBopomofo \<in> set cands \<longrightarrow>
        fst (validateBopomofo fetch cache character inputBopomofo) =
          Inr \<lparr>is_correct = True, correct_bopomofo = Some inputBopomofo, confidence = 1\<rparr>) \<and>
     (inputBopomofo \<notin> set cands \<and>
      normalizeBopomofo inputBopomofo \<in> normalizeBopomofo ` set cands \<longrightarrow>
        fst (validateBopomofo fetch cache character inputBopomofo) =
          Inr \<lparr>is_correct = True,
               correct_bopomofo =
                 find (\<lambda>c. normalizeBopomofo c = normalizeBopomofo inputBopomofo) cands,
               confidence = 4 / 5\<rparr>) \<and>
     (inputBopomofo \<notin> set cands \<and>
      normalizeBopomofo inputBopomofo \<notin> normalizeBopomofo ` set cands \<longrightarrow>
        fst (validateBopomofo fetch cache character inputBopomofo) =
          Inr \<lparr>is_correct = (Max (calculateSimilarity inputBopomofo ` set cands) > 7 / 10),
               correct_bopomofo =
                 find (\<lambda>c. calculateSimilarity inputBopomofo c =
                           Max (calculateSimilarity inputBopomofo ` set cands)) cands,
               confidence = Max (calculateSimilarity inputBopomofo ` set cands)\<rparr>)"
proof -
  have v: "fst (validateBopomofo fetch cache character inputBopomofo) =
             matchBopomofo (map JString cands) inputBopomofo"
    unfolding validateBopomofo_match assms(1) by simp
  show ?thesis
    unfolding v
    using assms(2) matchBopomofo_exact [of inputBopomofo cands]
      matchBopomofo_strings [of cands inputBopomofo]
      matchReadings_toneless [of inputBopomofo cands]
      matchReadings_similar [of cands inputBopomofo]
    by simp
qed

theorem validateBopomofo_cascade_witness:
  "fst (validateBopomofo (\<lambda>c. Response True 200 (Some zhong)) Map.empty [0x4E2D]
          [0x3113, 0x3128, 0x3125, 0x02CB]) =
     Inr \<lparr>is_correct = True, correct_bopomofo = Some [0x3113, 0x3128, 0x3125, 0x02CB],
          confidence = 1\<rparr> \<and>
   fst (validateBopomofo (\<lambda>c. Response True 200 (Some zhong)) Map.empty [0x4E2D]
          [0x3113, 0x3128, 0x3125, 0x02CA]) =
     Inr \<lparr>is_correct = True, correct_bopomofo = Some [0x3113, 0x3128, 0x3125],
          confidence = 4 / 5\<rparr> \<and>
   fst (validateBopomofo (\<lambda>c. Response True 200 (Some zhong)) Map.empty [0x4E2D]
          [0x3113, 0x3128]) =
     Inr \<lparr>is_correct = False, correct_bopomofo = Some [0x3113, 0x3128, 0x3125],
          confidence = 2 / 3\<rparr>"
  using validateBopomofo_cascade [OF zhong_candidates, of "[0x3113, 0x3128, 0x3125, 0x02CB]"]
    validateBopomofo_cascade [OF zhong_candidates, of "[0x3113, 0x3128, 0x3125, 0x02CA]"]
    validateBopomofo_cascade [OF zhong_candidates, of "[0x3113, 0x3128]"]
  by (simp add: calculateSimilarity_def normalizeBopomofo_def isToneMark_def
      levenshteinDistance_ed)

text \<open>
  The failures that \<^verbatim>\<open>getCharacterInfo\<close> catches (the request is rejected, the response is
  not ok, its body is not JSON) and a lookup without candidates give the verdict not
  correct with confidence 0 and no reading.
\<close>

lemma validateBopomofo_caught_failure:
  assumes "cache character = None" and "lookupFails (fetch character)"
  shows "validateBopomofo fetch cache character inputBopomofo = (Inr rejected, cache)"
  using assms
  by (simp add: validateBopomofo_def getCharacterInfo_def lookupFails_def split: sum.splits)

lemma validateBopomofo_no_candidates:
  assumes "candidateReadings (fst (getCharacterInfo fetch cache character)) = Inr []"
  shows "fst (validateBopomofo fetch cache character inputBopomofo) = Inr rejected"
  unfolding validateBopomofo_match assms by (simp add: matchBopomofo_def)

lemma lookupFails_iff:
  "lookupFails outcome \<longleftrightarrow>
     outcome = FetchRejected \<or> (\<exists>status body. outcome = Response False status body)
     \<or> (\<exists>status. outcome = Response True status None)"
  by (cases outcome) (auto simp: lookupFails_def split: option.splits)

text \<open>
  C6 fails on the code for a payload that is JSON but not of the declared shape. The
  response below is ok and its body is \<^verbatim>\<open>{"h":[null]}\<close>: \<^verbatim>\<open>getCharacterInfo\<close> returns and
  caches it, and \<^verbatim>\<open>validateBopomofo\<close> throws a TypeError when it reads \<^verbatim>\<open>b\<close> of the
  element \<^verbatim>\<open>null\<close>. The same happens for \<^verbatim>\<open>{"h":"abc"}\<close>, which has no \<^verbatim>\<open>map\<close>, and for
  \<^verbatim>\<open>{"h":[{"b":5}]}\<close>, whose candidate has no \<^verbatim>\<open>replace\<close>.
\<close>

theorem validateBopomofo_throws_on_malformed_payload:
  "validateBopomofo (\<lambda>c. Response True 200 (Some (JObject [(key_h, JArray [JNull])])))
     Map.empty character inputBopomofo =
     (Inl TypeError, [character \<mapsto> JObject [(key_h, JArray [JNull])]]) \<and>
   validateBopomofo (\<lambda>c. Response True 200 (Some (JObject [(key_h, JString [0x61, 0x62, 0x63])])))
     Map.empty character inputBopomofo =
     (Inl TypeError, [character \<mapsto> JObject [(key_h, JString [0x61, 0x62, 0x63])]]) \<and>
   validateBopomofo
     (\<lambda>c. Response True 200 (Some (JObject [(key_h, JArray [JObject [(key_b, JNumber 5)]])])))
     Map.empty character inputBopomofo =
     (Inl TypeError, [character \<mapsto> JObject [(key_h, JArray [JObject [(key_b, JNumber 5)]])]])"
  by (simp add: validateBopomofo_def getCharacterInfo_def matchBopomofo_def)

theorem validateBopomofo_throws_on_malformed_payload_witness:
  "validateBopomofo (\<lambda>c. Response True 200 (Some (JObject [(key_h, JArray [JNull])])))
     Map.empty [0x4E2D] [0x3113, 0x3128, 0x3125] =
     (Inl TypeError, [[0x4E2D] \<mapsto> JObject [(key_h, JArray [JNull])]])"
  using validateBopomofo_throws_on_malformed_payload [of "[0x4E2D]" "[0x3113, 0x3128, 0x3125]"]
  by (rule conjunct1)

text \<open>
  C9: the similarity of a string with itself is 1 (for every string, the non-empty ones
  included), and the similarity is symmetric.
\<close>

theorem calculateSimilarity_reflexive_symmetric:
  "calculateSimilarity a a = 1 \<and> calculateSimilarity a b = calculateSimilarity b a"
  using calculateSimilarity_same calculateSimilarity_sym by blast

theorem calculateSimilarity_reflexive_symmetric_witness:
  "calculateSimilarity [0x3113, 0x3128] [0x3113, 0x3128] = 1 \<and>
   calculateSimilarity [0x3113, 0x3128] [0x3125, 0x02CB] =
     calculateSimilarity [0x3125, 0x02CB] [0x3113, 0x3128]"
  using calculateSimilarity_reflexive_symmetric [of "[0x3113, 0x3128]" "[0x3125, 0x02CB]"]
  by simp

end
